theory Spec2Isabelle
  imports Main
begin

section \<open>Python values, exceptions and the HTTP objects\<close>

text \<open>
  The handlers of \<^verbatim>\<open>src/generics/api.py\<close> and \<^verbatim>\<open>src/custom_api/tokens.py\<close> move
  dynamically typed values around: settings read from a dict, the parsed JSON body, the user
  entity returned by the security manager, the pipeline functions. One universal value type
  holds them. \<open>PObj\<close> is an opaque object (a user entity, a pool of functions), known only by a
  handle. A float is a finite binary fraction (mantissa, exponent), an infinity or a NaN; only its
  truth value is ever inspected.
\<close>

datatype pyfloat = Finite int int | Infinity bool | NaN

datatype pyval =
    PNone
  | PBool bool
  | PInt int
  | PFloat pyfloat
  | PStr string
  | PList "pyval list"
  | PDict "(string \<times> pyval) list"
  | PObj nat

text \<open>Python's truth value of an object, as \<^verbatim>\<open>not token\<close> tests it.\<close>

fun truthy :: "pyval \<Rightarrow> bool" where
  "truthy PNone = False"
| "truthy (PBool b) = b"
| "truthy (PInt i) = (i \<noteq> 0)"
| "truthy (PFloat f) = (case f of Finite m e \<Rightarrow> m \<noteq> 0 | _ \<Rightarrow> True)"
| "truthy (PStr s) = (s \<noteq> [])"
| "truthy (PList xs) = (xs \<noteq> [])"
| "truthy (PDict kvs) = (kvs \<noteq> [])"
| "truthy (PObj h) = True"

text \<open>
  Exceptions. \<open>ErtisError\<close> is the application's structured error
  (\<^verbatim>\<open>err_code\<close>, \<^verbatim>\<open>err_msg\<close>, \<^verbatim>\<open>status_code\<close>, and \<^verbatim>\<open>context\<close>, here
  \<open>err_context\<close>, when the keyword is given); the others are the interpreter's own, which no handler catches.
\<close>

datatype exn =
    ErtisError (err_code: string) (err_msg: string) (status_code: nat) (err_context: "pyval option")
  | KeyError string
  | UnboundLocalError string
  | AttributeError string
  | TypeError string
  | ValueError string
  | OtherError string

text \<open>
  The request as the handlers read it: the headers (\<^verbatim>\<open>req.headers.get\<close> returns the first
  value stored under a name, or \<^verbatim>\<open>None\<close>) and the raw body \<^verbatim>\<open>request.data\<close>.
\<close>

record request =
  headers :: "(string \<times> string) list"
  data :: string

text \<open>
  The \<^verbatim>\<open>Response\<close> a handler builds. \<open>mimetype\<close> is \<open>None\<close> when the handler does not pass
  the keyword, so that the framework's default content type applies.
\<close>

record response =
  body :: string
  mimetype :: "string option"
  status :: nat

text \<open>
  Calls that leave this module are recorded, in order, next to the state of the outside world
  (database, identity store) that they read and change.
\<close>

datatype call =
    LoadUser pyval pyval pyval
  | Parse request
  | SvcFilter pyval pyval pyval pyval pyval string
  | SvcGet string string
  | SvcPost pyval string string pyval pyval
  | SvcPut pyval string string string pyval pyval
  | SvcDelete string string pyval
  | CraftToken pyval pyval pyval
  | RefreshToken pyval pyval pyval

record 'w st =
  calls :: "call list"
  world :: 'w

type_synonym ('a, 'w) ext = "'w \<Rightarrow> (exn + 'a) \<times> 'w"
type_synonym ('a, 'w) act = "'w st \<Rightarrow> (exn + 'a) \<times> 'w st"

text \<open>An outside call: record it, run it on the world, keep the world it leaves.\<close>

definition invoke :: "call \<Rightarrow> ('a, 'w) ext \<Rightarrow> ('a, 'w) act" where
  "invoke c f s =
     (case f (world s) of (r, w') \<Rightarrow> (r, \<lparr>calls = calls s @ [c], world = w'\<rparr>))"

text \<open>
  The collaborators that are imported from elsewhere: the security manager's
  \<^verbatim>\<open>load_user(token, secret, verify)\<close>, \<^verbatim>\<open>query_helpers.parse(request)\<close>, the token service's
  \<^verbatim>\<open>craft_token(credentials, secret, ttl)\<close> and \<^verbatim>\<open>refresh_token(user, secret, ttl)\<close>, the
  \<^verbatim>\<open>json\<close> module, and \<^verbatim>\<open>jsonschema.validate\<close> with the schema constant. Each may raise.
  \<^verbatim>\<open>json.loads\<close> raises a \<^verbatim>\<open>ValueError\<close> (with its message) on a body that is not JSON.
  \<^verbatim>\<open>json.dumps\<close> is only ever applied to a dict holding one string, which it always serialises.
  A \<^verbatim>\<open>ValidationError\<close> carries \<^verbatim>\<open>message\<close> and \<^verbatim>\<open>schema\<close>, the (sub)schema dict that failed.
\<close>

record validation_error =
  message :: string
  schema :: "(string \<times> pyval) list"

record 'w env =
  load_user :: "pyval \<Rightarrow> pyval \<Rightarrow> pyval \<Rightarrow> (pyval, 'w) ext"
  parse :: "request \<Rightarrow> (pyval \<times> pyval \<times> pyval \<times> pyval \<times> pyval, 'w) ext"
  craft_token :: "pyval \<Rightarrow> pyval \<Rightarrow> pyval \<Rightarrow> (string, 'w) ext"
  refresh_token_svc :: "pyval \<Rightarrow> pyval \<Rightarrow> pyval \<Rightarrow> (string, 'w) ext"
  json_loads :: "string \<Rightarrow> string + pyval"
  json_dumps :: "pyval \<Rightarrow> string"
  validate :: "pyval \<Rightarrow> pyval \<Rightarrow> validation_error option"
  CREATE_TOKEN_SCHEMA :: pyval

section \<open>The auth gate\<close>

text \<open>\<^verbatim>\<open>s.split(' ')\<close>: cut at every single space; empty pieces are kept.\<close>

fun str_split :: "char \<Rightarrow> string \<Rightarrow> string list" where
  "str_split c [] = [[]]"
| "str_split c (x # xs) =
     (if x = c then [] # str_split c xs
      else (case str_split c xs of [] \<Rightarrow> [[x]] | p # ps \<Rightarrow> (x # p) # ps))"

text \<open>
  \<^verbatim>\<open>ensure_token_provided(db, req, api_name, secret, verify)\<close>. The database handle is part of
  the world. \<^verbatim>\<open>not auth_header\<close> holds for a missing header and for an empty one. The
  \<^verbatim>\<open>try\<close> around \<^verbatim>\<open>split\<close> has no branch here: \<^verbatim>\<open>str.split\<close> does not raise, and its
  \<^verbatim>\<open>except\<close> block builds an error without raising it.
\<close>

definition ensure_token_provided ::
  "'w env \<Rightarrow> request \<Rightarrow> string \<Rightarrow> pyval \<Rightarrow> pyval \<Rightarrow> (pyval, 'w) act" where
  "ensure_token_provided env req api_name secret verify s =
     (let required = ErtisError ''errors.authorizationHeaderRequired''
            (''Authorization header is required for using this api<'' @ api_name @ ''>'')
            401 None
      in case map_of (headers req) ''Authorization'' of
           None \<Rightarrow> (Inl required, s)
         | Some auth_header \<Rightarrow>
             if auth_header = [] then (Inl required, s)
             else
               (let parts = str_split CHR '' '' auth_header in
                if length parts \<noteq> 2 then
                  (Inl (ErtisError ''errors.invalidBearerTokenUsage''
                         ''Bearer token usage is invalid'' 401 None), s)
                else
                  (let token = PStr (parts ! 1) in
                   invoke (LoadUser token secret verify)
                     (load_user env token secret verify) s)))"

text \<open>
  Follows the spec's words, for comparison with \<open>str_split\<close>: the tokens of a header that are
  separated by whitespace, that is, its maximal runs of characters that are not whitespace.
\<close>

definition is_space :: "char \<Rightarrow> bool" where
  "is_space c = (c \<in> set [CHR '' '', CHR 0x09, CHR 0x0A, CHR 0x0B, CHR 0x0C, CHR 0x0D])"

fun ws_tokens :: "string \<Rightarrow> string list" where
  "ws_tokens [] = []"
| "ws_tokens (x # xs) =
     (if is_space x then ws_tokens xs
      else (case xs of
              [] \<Rightarrow> [[x]]
            | y # ys \<Rightarrow> if is_space y then [x] # ws_tokens xs
                        else (case ws_tokens xs of [] \<Rightarrow> [[x]] | p # ps \<Rightarrow> (x # p) # ps)))"

section \<open>The generic resource controller\<close>

text \<open>Subscription \<^verbatim>\<open>d[k]\<close> of a dict raises \<^verbatim>\<open>KeyError\<close> on a missing key.\<close>

definition getitem :: "(string \<times> 'a) list \<Rightarrow> string \<Rightarrow> exn + 'a" where
  "getitem d k = (case map_of d k of None \<Rightarrow> Inl (KeyError k) | Some v \<Rightarrow> Inr v)"

definition STATUS_CODE_MAPPING :: "(string \<times> nat) list" where
  "STATUS_CODE_MAPPING =
     [(''CREATE'', 201), (''READ'', 200), (''QUERY'', 200),
      (''UPDATE'', 200), (''DELETE'', 204), (''DISTINCT'', 200)]"

text \<open>
  The resource service of a descriptor, with the arguments of each call in the order the
  handlers pass them (after \<^verbatim>\<open>app.generic_service\<close>, which is part of the world):
  \<^verbatim>\<open>filter(where, select, limit, skip, sort, resource_name)\<close>,
  \<^verbatim>\<open>get(_id, resource_name)\<close>,
  \<^verbatim>\<open>post(user, data, resource_name, validate_by, pipeline)\<close>,
  \<^verbatim>\<open>put(user, resource_id, data, resource_name, validate_by, pipeline)\<close>,
  \<^verbatim>\<open>delete(resource_id, resource_name, pipeline)\<close>. Each returns the serialised result.
\<close>

record 'w service =
  filter_svc :: "pyval \<Rightarrow> pyval \<Rightarrow> pyval \<Rightarrow> pyval \<Rightarrow> pyval \<Rightarrow> string \<Rightarrow> (string, 'w) ext"
  get_svc :: "string \<Rightarrow> string \<Rightarrow> (string, 'w) ext"
  post_svc :: "pyval \<Rightarrow> string \<Rightarrow> string \<Rightarrow> pyval \<Rightarrow> pyval \<Rightarrow> (string, 'w) ext"
  put_svc :: "pyval \<Rightarrow> string \<Rightarrow> string \<Rightarrow> string \<Rightarrow> pyval \<Rightarrow> pyval \<Rightarrow> (string, 'w) ext"
  delete_svc :: "string \<Rightarrow> string \<Rightarrow> pyval \<Rightarrow> (string, 'w) ext"

text \<open>The fields of a \<^verbatim>\<open>GenericErtisApi\<close> instance that the handlers read.\<close>

record 'w GenericErtisApi =
  settings :: "(string \<times> pyval) list"
  endpoint_prefix :: string
  methods :: "string list"
  resource_name :: string
  resource_service :: "'w service"
  create_validation_schema :: pyval
  update_validation_schema :: pyval
  pipeline_functions :: pyval
  allow_to_anonymous :: bool


text \<open>
  Every handler that authenticates does so with the same call,
  \<^verbatim>\<open>ensure_token_provided(app.db, request, self.resource_name,
  self.settings['application_secret'], self.settings['verify_token'])\<close>;
  the arguments are evaluated from left to right before the call.
\<close>

definition gate :: "'w GenericErtisApi \<Rightarrow> 'w env \<Rightarrow> request \<Rightarrow> (pyval, 'w) act" where
  "gate self env req s =
     (case getitem (settings self) ''application_secret'' of
        Inl e \<Rightarrow> (Inl e, s)
      | Inr secret \<Rightarrow>
         (case getitem (settings self) ''verify_token'' of
            Inl e \<Rightarrow> (Inl e, s)
          | Inr verify \<Rightarrow> ensure_token_provided env req (resource_name self) secret verify s))"

text \<open>
  The last step of every handler: \<^verbatim>\<open>Response(result, mimetype=..., status=STATUS_CODE_MAPPING[key])\<close>,
  built after the service has returned \<open>result\<close>.
\<close>

definition respond :: "string \<Rightarrow> string option \<Rightarrow> string \<Rightarrow> 'w st \<Rightarrow> (exn + response) \<times> 'w st" where
  "respond result mt key s =
     (case getitem STATUS_CODE_MAPPING key of
        Inl e \<Rightarrow> (Inl e, s)
      | Inr code \<Rightarrow> (Inr \<lparr>body = result, mimetype = mt, status = code\<rparr>, s))"

definition query :: "'w GenericErtisApi \<Rightarrow> 'w env \<Rightarrow> request \<Rightarrow> (response, 'w) act" where
  "query self env req s =
     (case (if \<not> allow_to_anonymous self then gate self env req s else (Inr PNone, s)) of
        (Inl e, s1) \<Rightarrow> (Inl e, s1)
      | (Inr _, s1) \<Rightarrow>
         (case invoke (Parse req) (parse env req) s1 of
            (Inl e, s2) \<Rightarrow> (Inl e, s2)
          | (Inr (where', select, limit, sort', skip), s2) \<Rightarrow>
             (case invoke (SvcFilter where' select limit skip sort' (resource_name self))
                     (filter_svc (resource_service self) where' select limit skip sort'
                        (resource_name self)) s2 of
                (Inl e, s3) \<Rightarrow> (Inl e, s3)
              | (Inr result, s3) \<Rightarrow> respond result (Some ''application/json'') ''QUERY'' s3)))"

definition read :: "'w GenericErtisApi \<Rightarrow> 'w env \<Rightarrow> request \<Rightarrow> string \<Rightarrow> (response, 'w) act" where
  "read self env req resource_id s =
     (case (if \<not> allow_to_anonymous self then gate self env req s else (Inr PNone, s)) of
        (Inl e, s1) \<Rightarrow> (Inl e, s1)
      | (Inr _, s1) \<Rightarrow>
         (case invoke (SvcGet resource_id (resource_name self))
                 (get_svc (resource_service self) resource_id (resource_name self)) s1 of
            (Inl e, s2) \<Rightarrow> (Inl e, s2)
          | (Inr result, s2) \<Rightarrow> respond result (Some ''application/json'') ''READ'' s2))"

text \<open>
  In \<^verbatim>\<open>create\<close> and \<^verbatim>\<open>update\<close> the local variable \<^verbatim>\<open>user\<close> is assigned only in the
  branch that authenticates. It is \<open>None\<close> here while unassigned, and reading it then raises
  \<^verbatim>\<open>UnboundLocalError\<close>, while the arguments of the service call are being evaluated.
\<close>

definition bind_user :: "'w GenericErtisApi \<Rightarrow> 'w env \<Rightarrow> request \<Rightarrow> (pyval option, 'w) act" where
  "bind_user self env req s =
     (if \<not> allow_to_anonymous self then
        (case gate self env req s of
           (Inl e, s1) \<Rightarrow> (Inl e, s1)
         | (Inr u, s1) \<Rightarrow> (Inr (Some u), s1))
      else (Inr None, s))"

definition create :: "'w GenericErtisApi \<Rightarrow> 'w env \<Rightarrow> request \<Rightarrow> (response, 'w) act" where
  "create self env req s =
     (case bind_user self env req s of
        (Inl e, s1) \<Rightarrow> (Inl e, s1)
      | (Inr user, s1) \<Rightarrow>
         (let data' = data req in
          case user of
            None \<Rightarrow> (Inl (UnboundLocalError ''user''), s1)
          | Some u \<Rightarrow>
             (case invoke (SvcPost u data' (resource_name self) (create_validation_schema self)
                             (pipeline_functions self))
                     (post_svc (resource_service self) u data' (resource_name self)
                        (create_validation_schema self) (pipeline_functions self)) s1 of
                (Inl e, s2) \<Rightarrow> (Inl e, s2)
              | (Inr result, s2) \<Rightarrow> respond result (Some ''application/json'') ''CREATE'' s2)))"

definition update :: "'w GenericErtisApi \<Rightarrow> 'w env \<Rightarrow> request \<Rightarrow> string \<Rightarrow> (response, 'w) act" where
  "update self env req resource_id s =
     (case bind_user self env req s of
        (Inl e, s1) \<Rightarrow> (Inl e, s1)
      | (Inr user, s1) \<Rightarrow>
         (let data' = data req in
          case user of
            None \<Rightarrow> (Inl (UnboundLocalError ''user''), s1)
          | Some u \<Rightarrow>
             (case invoke (SvcPut u resource_id data' (resource_name self)
                             (update_validation_schema self) (pipeline_functions self))
                     (put_svc (resource_service self) u resource_id data' (resource_name self)
                        (update_validation_schema self) (pipeline_functions self)) s1 of
                (Inl e, s2) \<Rightarrow> (Inl e, s2)
              | (Inr result, s2) \<Rightarrow> respond result (Some ''application/json'') ''UPDATE'' s2)))"

definition delete :: "'w GenericErtisApi \<Rightarrow> 'w env \<Rightarrow> request \<Rightarrow> string \<Rightarrow> (response, 'w) act" where
  "delete self env req resource_id s =
     (case (if \<not> allow_to_anonymous self then gate self env req s else (Inr PNone, s)) of
        (Inl e, s1) \<Rightarrow> (Inl e, s1)
      | (Inr _, s1) \<Rightarrow>
         (case invoke (SvcDelete resource_id (resource_name self) (pipeline_functions self))
                 (delete_svc (resource_service self) resource_id (resource_name self)
                    (pipeline_functions self)) s1 of
            (Inl e, s2) \<Rightarrow> (Inl e, s2)
          | (Inr result, s2) \<Rightarrow> respond result None ''DELETE'' s2))"

text \<open>
  \<^verbatim>\<open>generate_endpoints\<close> registers routes on the application: the URL rule, the HTTP methods
  of the rule, the endpoint name given by \<^verbatim>\<open>rename\<close>, and the handler. The result is the list of
  routes it registers, in order.
\<close>

datatype view = Query | Read | Create | Update | Delete

record route =
  rule :: string
  http_methods :: "string list"
  endpoint :: string
  view :: view


text \<open>
  Serving a request on a registered route runs its handler; \<open>resource_id\<close> is the URL variable,
  which the rules of \<^verbatim>\<open>query\<close> and \<^verbatim>\<open>create\<close> do not have.
\<close>

fun handle :: "view \<Rightarrow> 'w GenericErtisApi \<Rightarrow> 'w env \<Rightarrow> request \<Rightarrow> string \<Rightarrow> (response, 'w) act" where
  "handle Query self env req resource_id = query self env req"
| "handle Read self env req resource_id = read self env req resource_id"
| "handle Create self env req resource_id = create self env req"
| "handle Update self env req resource_id = update self env req resource_id"
| "handle Delete self env req resource_id = delete self env req resource_id"

section \<open>The token endpoints\<close>

text \<open>
  \<^verbatim>\<open>body[key]\<close> and \<^verbatim>\<open>body.get(key)\<close> on a parsed JSON value: only a dict has them for a
  string key. The dict's \<^verbatim>\<open>get\<close> returns \<^verbatim>\<open>None\<close>, or the default passed, for a missing key.
\<close>

fun subscript :: "pyval \<Rightarrow> string \<Rightarrow> exn + pyval" where
  "subscript (PDict kvs) k = getitem kvs k"
| "subscript v k = Inl (TypeError ''subscript'')"

fun get_method :: "pyval \<Rightarrow> string \<Rightarrow> exn + pyval" where
  "get_method (PDict kvs) k = (case map_of kvs k of None \<Rightarrow> Inr PNone | Some v \<Rightarrow> Inr v)"
| "get_method v k = Inl (AttributeError ''get'')"

definition dict_get :: "(string \<times> pyval) list \<Rightarrow> string \<Rightarrow> pyval \<Rightarrow> pyval" where
  "dict_get d k dflt = (case map_of d k of None \<Rightarrow> dflt | Some v \<Rightarrow> v)"

text \<open>
  \<^verbatim>\<open>create_token\<close>, the handler of \<^verbatim>\<open>POST /api/{version}/tokens\<close>. \<^verbatim>\<open>json.loads\<close> runs
  outside the \<^verbatim>\<open>try\<close>, so its \<^verbatim>\<open>ValueError\<close> leaves the handler as it is. The schema
  constant is taken to be a well-formed schema, so that \<^verbatim>\<open>validate\<close> either returns or raises
  \<^verbatim>\<open>ValidationError\<close>.
\<close>

definition create_token :: "'w env \<Rightarrow> (string \<times> pyval) list \<Rightarrow> request \<Rightarrow> (response, 'w) act" where
  "create_token env settings' req s =
     (case json_loads env (data req) of
        Inl msg \<Rightarrow> (Inl (ValueError msg), s)
      | Inr body' \<Rightarrow>
         (case validate env body' (CREATE_TOKEN_SCHEMA env) of
            Some e \<Rightarrow>
              (Inl (ErtisError ''errors.validationError'' (message e) 400
                     (Some (PDict [(''required'', dict_get (schema e) ''required'' (PList [])),
                                   (''properties'', dict_get (schema e) ''properties'' (PDict []))]))),
               s)
          | None \<Rightarrow>
             (case subscript body' ''email'' of
                Inl e \<Rightarrow> (Inl e, s)
              | Inr email \<Rightarrow>
                 (case subscript body' ''password'' of
                    Inl e \<Rightarrow> (Inl e, s)
                  | Inr password \<Rightarrow>
                     (let credentials = PDict [(''email'', email), (''password'', password)] in
                      case getitem settings' ''application_secret'' of
                        Inl e \<Rightarrow> (Inl e, s)
                      | Inr secret \<Rightarrow>
                         (case getitem settings' ''token_ttl'' of
                            Inl e \<Rightarrow> (Inl e, s)
                          | Inr ttl \<Rightarrow>
                             (case invoke (CraftToken credentials secret ttl)
                                     (craft_token env credentials secret ttl) s of
                                (Inl e, s1) \<Rightarrow> (Inl e, s1)
                              | (Inr token, s1) \<Rightarrow>
                                 (Inr \<lparr>body = json_dumps env (PDict [(''token'', PStr token)]),
                                       mimetype = Some ''application/json'',
                                       status = 200\<rparr>, s1))))))))"

text \<open>
  \<^verbatim>\<open>refresh_token\<close>, the handler of \<^verbatim>\<open>POST /api/{version}/tokens/refresh\<close>. The token
  service's function of the same name is \<open>refresh_token_svc\<close>.
\<close>

definition refresh_token :: "'w env \<Rightarrow> (string \<times> pyval) list \<Rightarrow> request \<Rightarrow> (response, 'w) act" where
  "refresh_token env settings' req s =
     (case json_loads env (data req) of
        Inl msg \<Rightarrow>
          (Inl (ErtisError ''errors.badRequest'' ''Invalid json provided'' 400
                 (Some (PDict [(''message'', PStr msg)]))), s)
      | Inr body' \<Rightarrow>
         (case get_method body' ''token'' of
            Inl e \<Rightarrow> (Inl e, s)
          | Inr token \<Rightarrow>
             if \<not> truthy token then
               (Inl (ErtisError ''errors.tokenRequired'' ''Token is required'' 400 None), s)
             else
               (case getitem settings' ''application_secret'' of
                  Inl e \<Rightarrow> (Inl e, s)
                | Inr secret \<Rightarrow>
                   (case getitem settings' ''verify_token'' of
                      Inl e \<Rightarrow> (Inl e, s)
                    | Inr verify \<Rightarrow>
                       (case invoke (LoadUser token secret verify)
                               (load_user env token secret verify) s of
                          (Inl e, s1) \<Rightarrow> (Inl e, s1)
                        | (Inr user, s1) \<Rightarrow>
                           (case getitem settings' ''token_ttl'' of
                              Inl e \<Rightarrow> (Inl e, s1)
                            | Inr ttl \<Rightarrow>
                               (case invoke (RefreshToken user secret ttl)
                                       (refresh_token_svc env user secret ttl) s1 of
                                  (Inl e, s2) \<Rightarrow> (Inl e, s2)
                                | (Inr new_token, s2) \<Rightarrow>
                                   (Inr \<lparr>body = json_dumps env (PDict [(''token'', PStr new_token)]),
                                         mimetype = Some ''application/json'',
                                         status = 201\<rparr>, s2))))))))"

section \<open>A concrete deployment\<close>

text \<open>
  A small instance on which the theorems below are run: the world counts the writes made, the
  security manager knows one token, and the JSON functions are tabulated on the bodies used.
\<close>

definition demo_loads :: "string \<Rightarrow> string + pyval" where
  \<open>demo_loads b =
     (if b = ''[]'' then Inr (PList [])
      else if b = ''{}'' then Inr (PDict [])
      else if b = ''{"token": "abc"}'' then Inr (PDict [(''token'', PStr ''abc'')])
      else if b = ''{"email": "a@b.c", "password": "pw"}''
        then Inr (PDict [(''email'', PStr ''a@b.c''), (''password'', PStr ''pw'')])
      else if b = ''{"email": 5, "password": "pw"}''
        then Inr (PDict [(''email'', PInt 5), (''password'', PStr ''pw'')])
      else Inl ''Expecting value'')\<close>

definition demo_dumps :: "pyval \<Rightarrow> string" where
  \<open>demo_dumps v =
     (case v of
        PDict [(k, PStr x)] \<Rightarrow> ''{"'' @ k @ ''": "'' @ x @ ''"}''
      | _ \<Rightarrow> ''null'')\<close>

text \<open>
  The stand-in for \<^verbatim>\<open>jsonschema.validate\<close> reports, as the library does, the schema whose
  keyword failed: the whole schema for a missing required property or a body that is no
  object, the schema of the property for a value of the wrong type.
\<close>

definition property_schema :: "(string \<times> pyval) list \<Rightarrow> string \<Rightarrow> (string \<times> pyval) list" where
  "property_schema sk k =
     (case map_of sk ''properties'' of
        Some (PDict ps) \<Rightarrow> (case map_of ps k of Some (PDict sub) \<Rightarrow> sub | _ \<Rightarrow> [])
      | _ \<Rightarrow> [])"

definition demo_validate :: "pyval \<Rightarrow> pyval \<Rightarrow> validation_error option" where
  "demo_validate v sch =
     (case (v, sch) of
        (PDict kvs, PDict sk) \<Rightarrow>
          (case (map_of kvs ''email'', map_of kvs ''password'') of
             (None, _) \<Rightarrow> Some \<lparr>message = ''email is a required property'', schema = sk\<rparr>
           | (Some _, None) \<Rightarrow>
               Some \<lparr>message = ''password is a required property'', schema = sk\<rparr>
           | (Some (PStr _), Some (PStr _)) \<Rightarrow> None
           | (Some (PStr _), Some _) \<Rightarrow>
               Some \<lparr>message = ''password is not of type string'',
                     schema = property_schema sk ''password''\<rparr>
           | (Some _, Some _) \<Rightarrow>
               Some \<lparr>message = ''email is not of type string'',
                     schema = property_schema sk ''email''\<rparr>)
      | (_, PDict sk) \<Rightarrow> Some \<lparr>message = ''not of type object'', schema = sk\<rparr>
      | _ \<Rightarrow> None)"

definition demo_schema :: pyval where
  "demo_schema =
     PDict [(''type'', PStr ''object''),
            (''properties'', PDict [(''email'', PDict [(''type'', PStr ''string'')]),
                                    (''password'', PDict [(''type'', PStr ''string'')])]),
            (''required'', PList [PStr ''email'', PStr ''password''])]"

definition demo_env :: "nat env" where
  "demo_env =
     \<lparr>load_user = (\<lambda>token secret verify w.
         if token = PStr ''abc'' then (Inr (PObj 7), w)
         else (Inl (ErtisError ''errors.invalidToken'' ''Token is invalid'' 401 None), w)),
      parse = (\<lambda>req w. (Inr (PDict [], PNone, PInt 10, PNone, PInt 0), w)),
      craft_token = (\<lambda>credentials secret ttl w. (Inr ''tok1'', w)),
      refresh_token_svc = (\<lambda>user secret ttl w. (Inr ''tok2'', w)),
      json_loads = demo_loads,
      json_dumps = demo_dumps,
      validate = demo_validate,
      CREATE_TOKEN_SCHEMA = demo_schema\<rparr>"

definition demo_service :: "nat service" where
  "demo_service =
     \<lparr>filter_svc = (\<lambda>where' select limit skip sort' name w. (Inr ''[]'', w)),
      get_svc = (\<lambda>rid name w. (Inr (''item '' @ rid), w)),
      post_svc = (\<lambda>user data' name sch pipeline w. (Inr data', Suc w)),
      put_svc = (\<lambda>user rid data' name sch pipeline w. (Inr data', Suc w)),
      delete_svc = (\<lambda>rid name pipeline w. (Inr [], Suc w))\<rparr>"

definition demo_settings :: "(string \<times> pyval) list" where
  "demo_settings =
     [(''api_version'', PStr ''v1''), (''application_secret'', PStr ''k''),
      (''verify_token'', PBool True), (''token_ttl'', PInt 60)]"

definition demo_api :: "nat GenericErtisApi" where
  "demo_api =
     \<lparr>settings = demo_settings,
      endpoint_prefix = ''/api/v1/users'',
      methods = [''GET'', ''POST'', ''PUT'', ''DELETE'', ''QUERY''],
      resource_name = ''users'',
      resource_service = demo_service,
      create_validation_schema = PNone,
      update_validation_schema = PNone,
      pipeline_functions = PNone,
      allow_to_anonymous = False\<rparr>"

definition bearer :: "string \<Rightarrow> string \<Rightarrow> request" where
  "bearer h b = \<lparr>headers = [(''Authorization'', h)], data = b\<rparr>"

definition s0 :: "nat st" where
  "s0 = \<lparr>calls = [], world = 0\<rparr>"

section \<open>Reading the record of calls\<close>

text \<open>The calls that go to the resource service of a descriptor.\<close>

fun is_service_call :: "call \<Rightarrow> bool" where
  "is_service_call (SvcFilter w' se li sk so n) = True"
| "is_service_call (SvcGet i n) = True"
| "is_service_call (SvcPost u d n v p) = True"
| "is_service_call (SvcPut u i d n v p) = True"
| "is_service_call (SvcDelete i n p) = True"
| "is_service_call c = False"

text \<open>
  The value a call passes for the service's \<^verbatim>\<open>user\<close> parameter: \<^verbatim>\<open>post\<close> and \<^verbatim>\<open>put\<close> are
  called with it first; no other call has such an argument.
\<close>

fun user_arg :: "call \<Rightarrow> pyval option" where
  "user_arg (SvcPost u d n v p) = Some u"
| "user_arg (SvcPut u i d n v p) = Some u"
| "user_arg c = None"

section \<open>Evaluation and structure lemmas\<close>

lemmas demo_defs = demo_api_def demo_env_def demo_service_def demo_settings_def bearer_def s0_def
lemmas run_defs = gate_def getitem_def ensure_token_provided_def invoke_def respond_def
  STATUS_CODE_MAPPING_def Let_def

lemma invoke_calls:
  "invoke c f s = (r, s') \<Longrightarrow> calls s' = calls s @ [c] \<and> f (world s) = (r, world s')"
  by (auto simp: invoke_def split: prod.splits)

lemma respond_Inr:
  "respond result mt key s = (Inr resp, s') \<Longrightarrow>
     getitem STATUS_CODE_MAPPING key = Inr (status resp) \<and> body resp = result
     \<and> mimetype resp = mt \<and> s' = s"
  by (auto simp: respond_def split: sum.splits)

lemma respond_state: "respond result mt key s = (r, s') \<Longrightarrow> s' = s"
  by (auto simp: respond_def split: sum.splits)

lemma invoke_result:
  "invoke c f s = (r, s') \<Longrightarrow> f (world s) = (r, world s')"
  by (auto simp: invoke_def split: prod.splits)

text \<open>
  \<open>str_split\<close> returns one piece more than there are separators, so it returns two pieces
  exactly for a text of the form \<open>a @ c # b\<close> with no separator in \<open>a\<close> and \<open>b\<close>.
\<close>

lemma str_split_length: "length (str_split c h) = Suc (count_list h c)"
  by (induction h) (auto split: list.splits)

lemma str_split_none: "c \<notin> set a \<Longrightarrow> str_split c a = [a]"
  by (induction a) auto

lemma str_split_two:
  "c \<notin> set a \<Longrightarrow> str_split c (a @ c # b) = a # str_split c b"
  by (induction a) auto

lemma count_one_split:
  "count_list h c = 1 \<Longrightarrow> \<exists>a b. h = a @ c # b \<and> c \<notin> set a \<and> c \<notin> set b"
proof (induction h)
  case Nil then show ?case by simp
next
  case (Cons x xs)
  show ?case
  proof (cases "x = c")
    case True
    with Cons.prems have "count_list xs c = 0" by simp
    then have "c \<notin> set xs" by (simp add: count_list_0_iff)
    with True show ?thesis by (intro exI [of _ "[]"] exI [of _ xs]) simp
  next
    case False
    with Cons.prems have "count_list xs c = 1" by simp
    with Cons.IH obtain a b where "xs = a @ c # b" "c \<notin> set a" "c \<notin> set b" by blast
    with False show ?thesis by (intro exI [of _ "x # a"] exI [of _ b]) simp
  qed
qed

text \<open>The gate records at most the call to the security manager, and exactly it on success.\<close>

lemma etp_calls:
  "ensure_token_provided env req api secret verify s = (g, s1) \<Longrightarrow>
     (\<exists>e. g = Inl e \<and> s1 = s) \<or> (\<exists>token. calls s1 = calls s @ [LoadUser token secret verify])"
  unfolding ensure_token_provided_def Let_def invoke_def
  by (auto split: option.splits if_splits prod.splits)

lemma gate_calls:
  "gate self env req s = (g, s1) \<Longrightarrow>
     (\<exists>e. g = Inl e \<and> s1 = s)
     \<or> (\<exists>token secret verify. calls s1 = calls s @ [LoadUser token secret verify])"
  by (auto simp: gate_def getitem_def split: option.splits dest: etp_calls)

lemma gate_Inr_calls:
  "gate self env req s = (Inr u, s1) \<Longrightarrow>
     \<exists>token secret verify. calls s1 = calls s @ [LoadUser token secret verify]"
  by (drule gate_calls) auto

text \<open>What each handler of a descriptor that is not anonymous does after the gate.\<close>

lemma handle_gate_fails:
  "\<not> allow_to_anonymous self \<Longrightarrow> gate self env req s = (Inl e, s1) \<Longrightarrow>
     handle v self env req resource_id s = (Inl e, s1)"
  by (cases v) (simp_all add: query_def read_def create_def update_def delete_def bind_user_def)

lemma query_calls:
  "\<not> allow_to_anonymous self \<Longrightarrow> gate self env req s = (Inr u, s1) \<Longrightarrow>
     calls (snd (query self env req s)) =
       calls s1 @ Parse req #
         (case fst (parse env req (world s1)) of
            Inl e \<Rightarrow> []
          | Inr (where', select, limit, sort', skip) \<Rightarrow>
              [SvcFilter where' select limit skip sort' (resource_name self)])"
  by (simp add: query_def invoke_def respond_def split: prod.split sum.split)

lemma read_calls:
  "\<not> allow_to_anonymous self \<Longrightarrow> gate self env req s = (Inr u, s1) \<Longrightarrow>
     calls (snd (read self env req resource_id s)) =
       calls s1 @ [SvcGet resource_id (resource_name self)]"
  by (simp add: read_def invoke_def respond_def split: prod.split sum.split)

lemma create_calls:
  "\<not> allow_to_anonymous self \<Longrightarrow> gate self env req s = (Inr u, s1) \<Longrightarrow>
     calls (snd (create self env req s)) =
       calls s1 @ [SvcPost u (data req) (resource_name self) (create_validation_schema self)
                     (pipeline_functions self)]"
  by (simp add: create_def bind_user_def Let_def invoke_def respond_def split: prod.split sum.split)

lemma update_calls:
  "\<not> allow_to_anonymous self \<Longrightarrow> gate self env req s = (Inr u, s1) \<Longrightarrow>
     calls (snd (update self env req resource_id s)) =
       calls s1 @ [SvcPut u resource_id (data req) (resource_name self)
                     (update_validation_schema self) (pipeline_functions self)]"
  by (simp add: update_def bind_user_def Let_def invoke_def respond_def split: prod.split sum.split)

lemma delete_calls:
  "\<not> allow_to_anonymous self \<Longrightarrow> gate self env req s = (Inr u, s1) \<Longrightarrow>
     calls (snd (delete self env req resource_id s)) =
       calls s1 @ [SvcDelete resource_id (resource_name self) (pipeline_functions self)]"
  by (simp add: delete_def invoke_def respond_def split: prod.split sum.split)

lemma handle_calls_extend:
  "\<not> allow_to_anonymous self \<Longrightarrow> gate self env req s = (Inr u, s1) \<Longrightarrow>
     \<exists>rest. calls (snd (handle v self env req resource_id s)) = calls s1 @ rest"
  by (cases v) (simp_all add: query_calls read_calls create_calls update_calls delete_calls)



lemma demo_loads_empty: "demo_loads ''{}'' = Inr (PDict [])"
  by (simp add: demo_loads_def)

lemma demo_loads_credentials:
  \<open>demo_loads ''{"email": "a@b.c", "password": "pw"}'' =
     Inr (PDict [(''email'', PStr ''a@b.c''), (''password'', PStr ''pw'')])\<close>
  by (simp add: demo_loads_def)

lemma demo_loads_token:
  \<open>demo_loads ''{"token": "abc"}'' = Inr (PDict [(''token'', PStr ''abc'')])\<close>
  by (simp add: demo_loads_def)

section \<open>Authentication comes first\<close>

text \<open>
  Claim C1. On a descriptor with \<^verbatim>\<open>allow_to_anonymous\<close> false, every generated handler
  (query, read, create, update, delete) runs the auth gate before anything else. Whatever
  calls the handler adds to the record, a call to the resource service at position \<open>i\<close> is
  there only if the gate returned a user, and the gate's call to the security manager stands
  before it. If the gate raises, the handler raises the same error, stops in the gate's state,
  and no call to the resource service is recorded.
\<close>

theorem auth_before_service:
  assumes anon: "\<not> allow_to_anonymous self"
      and g: "gate self env req s = (g, s1)"
      and h: "handle v self env req resource_id s = (r, s')"
  shows "\<exists>new. calls s' = calls s @ new
           \<and> (\<forall>i < length new. is_service_call (new ! i) \<longrightarrow>
                 (\<exists>u. g = Inr u)
                 \<and> (\<exists>j < i. \<exists>token secret verify. new ! j = LoadUser token secret verify))
           \<and> (\<forall>e. g = Inl e \<longrightarrow>
                 r = Inl e \<and> s' = s1 \<and> (\<forall>c \<in> set new. \<not> is_service_call c))"
proof (cases g)
  case (Inl e)
  with anon g h have rs: "r = Inl e" "s' = s1"
    using handle_gate_fails [of self env req s e s1 v resource_id] by simp_all
  from gate_calls [OF g] consider "s1 = s"
    | token secret verify where "calls s1 = calls s @ [LoadUser token secret verify]"
    by blast
  then show ?thesis
  proof cases
    case 1
    with rs Inl show ?thesis by (intro exI [of _ "[]"]) simp
  next
    case 2
    with rs Inl show ?thesis
      by (intro exI [of _ "[LoadUser token secret verify]"]) simp
  qed
next
  case (Inr u)
  from g Inr obtain token secret verify
    where s1: "calls s1 = calls s @ [LoadUser token secret verify]"
    using gate_Inr_calls by blast
  from anon g Inr h obtain rest where rest: "calls s' = calls s1 @ rest"
    using handle_calls_extend [of self env req s u s1 v resource_id] by auto
  show ?thesis
  proof (intro exI [of _ "LoadUser token secret verify # rest"] conjI allI impI)
    show "calls s' = calls s @ LoadUser token secret verify # rest"
      using s1 rest by simp
  next
    fix i
    assume i: "i < length (LoadUser token secret verify # rest)"
       and sc: "is_service_call ((LoadUser token secret verify # rest) ! i)"
    from sc have "0 < i" by (cases i) auto
    then show "\<exists>j<i. \<exists>token' secret' verify'.
                 (LoadUser token secret verify # rest) ! j = LoadUser token' secret' verify'"
      by (intro exI [of _ 0]) simp
    show "\<exists>u. g = Inr u" using Inr by blast
  next
    fix e assume "g = Inl e"
    with Inr show "r = Inl e" "s' = s1"
      "\<forall>c\<in>set (LoadUser token secret verify # rest). \<not> is_service_call c" by simp_all
  qed
qed

theorem auth_before_service_witness:
  "\<not> allow_to_anonymous demo_api
   \<and> gate demo_api demo_env (bearer ''Bearer abc'' []) s0 =
       (Inr (PObj 7), \<lparr>calls = [LoadUser (PStr ''abc'') (PStr ''k'') (PBool True)], world = 0\<rparr>)
   \<and> handle Read demo_api demo_env (bearer ''Bearer abc'' []) ''42'' s0 =
       (Inr \<lparr>body = ''item 42'', mimetype = Some ''application/json'', status = 200\<rparr>,
        \<lparr>calls = [LoadUser (PStr ''abc'') (PStr ''k'') (PBool True), SvcGet ''42'' ''users''],
         world = 0\<rparr>)
   \<and> (\<exists>new. [LoadUser (PStr ''abc'') (PStr ''k'') (PBool True), SvcGet ''42'' ''users''] = new
          \<and> (\<forall>i < length new. is_service_call (new ! i) \<longrightarrow>
                (\<exists>j < i. \<exists>token secret verify. new ! j = LoadUser token secret verify)))"
proof -
  have a: "\<not> allow_to_anonymous demo_api" by (simp add: demo_api_def)
  have g: "gate demo_api demo_env (bearer ''Bearer abc'' []) s0 =
       (Inr (PObj 7), \<lparr>calls = [LoadUser (PStr ''abc'') (PStr ''k'') (PBool True)], world = 0\<rparr>)"
    by (simp add: demo_defs run_defs)
  have h: "handle Read demo_api demo_env (bearer ''Bearer abc'' []) ''42'' s0 =
       (Inr \<lparr>body = ''item 42'', mimetype = Some ''application/json'', status = 200\<rparr>,
        \<lparr>calls = [LoadUser (PStr ''abc'') (PStr ''k'') (PBool True), SvcGet ''42'' ''users''],
         world = 0\<rparr>)"
    by (simp add: read_def demo_defs run_defs)
  from auth_before_service [OF a g h] a g h show ?thesis
    by (simp add: s0_def)
qed

section \<open>The header of the auth gate\<close>

text \<open>
  Claim C2, as amended. A missing or empty \<^verbatim>\<open>Authorization\<close> header is refused with 401
  \<^verbatim>\<open>errors.authorizationHeaderRequired\<close>. A header that does not hold exactly one space
  character is refused with 401 \<^verbatim>\<open>errors.invalidBearerTokenUsage\<close>. Otherwise the header is
  \<open>scheme\<close>, one space, \<open>credential\<close> (either may be empty), and the gate's result is that of
  \<^verbatim>\<open>load_user\<close> on the credential, whose call is recorded.
\<close>

theorem ensure_token_provided_split:
  "(map_of (headers req) ''Authorization'' = None
      \<or> map_of (headers req) ''Authorization'' = Some [] \<longrightarrow>
      ensure_token_provided env req api_name secret verify s =
        (Inl (ErtisError ''errors.authorizationHeaderRequired''
               (''Authorization header is required for using this api<'' @ api_name @ ''>'')
               401 None), s))
   \<and> (\<forall>h. map_of (headers req) ''Authorization'' = Some h \<and> h \<noteq> []
            \<and> count_list h CHR '' '' \<noteq> 1 \<longrightarrow>
      ensure_token_provided env req api_name secret verify s =
        (Inl (ErtisError ''errors.invalidBearerTokenUsage''
               ''Bearer token usage is invalid'' 401 None), s))
   \<and> (\<forall>scheme credential.
         map_of (headers req) ''Authorization'' = Some (scheme @ CHR '' '' # credential)
            \<and> CHR '' '' \<notin> set scheme \<and> CHR '' '' \<notin> set credential \<longrightarrow>
      ensure_token_provided env req api_name secret verify s =
        invoke (LoadUser (PStr credential) secret verify)
          (load_user env (PStr credential) secret verify) s)"
  by (auto simp: ensure_token_provided_def Let_def str_split_length str_split_two str_split_none)

theorem ensure_token_provided_split_witness:
  "ensure_token_provided demo_env \<lparr>headers = [], data = []\<rparr> ''users'' (PStr ''k'') (PBool True) s0 =
     (Inl (ErtisError ''errors.authorizationHeaderRequired''
            ''Authorization header is required for using this api<users>'' 401 None), s0)
   \<and> ensure_token_provided demo_env (bearer ''abc'' []) ''users'' (PStr ''k'') (PBool True) s0 =
        (Inl (ErtisError ''errors.invalidBearerTokenUsage''
               ''Bearer token usage is invalid'' 401 None), s0)
   \<and> ensure_token_provided demo_env (bearer ''Bearer abc'' []) ''users'' (PStr ''k'') (PBool True) s0 =
       (Inr (PObj 7), \<lparr>calls = [LoadUser (PStr ''abc'') (PStr ''k'') (PBool True)], world = 0\<rparr>)"
  using ensure_token_provided_split
          [of "\<lparr>headers = [], data = []\<rparr>" demo_env "''users''" "PStr ''k''" "PBool True" s0]
        ensure_token_provided_split
          [of "bearer ''abc'' []" demo_env "''users''" "PStr ''k''" "PBool True" s0]
        ensure_token_provided_split
          [of "bearer ''Bearer abc'' []" demo_env "''users''" "PStr ''k''" "PBool True" s0,
           THEN conjunct2, THEN conjunct2, THEN spec, THEN spec, of "''Bearer''" "''abc''"]
  by (simp add: bearer_def invoke_def demo_env_def s0_def)

text \<open>
  Claim C2 as stated speaks of two whitespace-separated tokens. The header
  \<^verbatim>\<open>Bearer  abc\<close>, with two spaces, has exactly the two tokens \<^verbatim>\<open>Bearer\<close> and \<^verbatim>\<open>abc\<close>, yet
  \<^verbatim>\<open>split(' ')\<close> cuts it in three and the gate refuses it without calling \<^verbatim>\<open>load_user\<close>.
\<close>

theorem two_tokens_rejected:
  "ws_tokens ''Bearer  abc'' = [''Bearer'', ''abc'']
   \<and> ensure_token_provided demo_env (bearer ''Bearer  abc'' []) ''users'' (PStr ''k'') (PBool True) s0 =
       (Inl (ErtisError ''errors.invalidBearerTokenUsage''
              ''Bearer token usage is invalid'' 401 None), s0)"
  by (simp add: is_space_def ensure_token_provided_def bearer_def Let_def)

section \<open>Routes and methods\<close>



section \<open>The user in the delegate calls\<close>

text \<open>
  Claim C4, as amended. On a descriptor that is not anonymous, once the gate has returned the
  user \<open>u\<close>, create calls \<^verbatim>\<open>service.post\<close> and update calls \<^verbatim>\<open>service.put\<close> with \<open>u\<close> as the
  user argument, while the calls of delete, read and query (\<^verbatim>\<open>service.delete\<close>,
  \<^verbatim>\<open>service.get\<close>, \<^verbatim>\<open>service.filter\<close>) carry no user argument.
\<close>

theorem user_argument_of_delegates:
  assumes anon: "\<not> allow_to_anonymous self"
      and g: "gate self env req s = (Inr u, s1)"
      and h: "handle v self env req resource_id s = (r, s')"
  shows "(v = Create \<longrightarrow> calls s' = calls s1 @
            [SvcPost u (data req) (resource_name self) (create_validation_schema self)
               (pipeline_functions self)])
       \<and> (v = Update \<longrightarrow> calls s' = calls s1 @
            [SvcPut u resource_id (data req) (resource_name self)
               (update_validation_schema self) (pipeline_functions self)])
       \<and> (v = Delete \<longrightarrow> calls s' = calls s1 @
            [SvcDelete resource_id (resource_name self) (pipeline_functions self)])
       \<and> (v = Read \<longrightarrow> calls s' = calls s1 @ [SvcGet resource_id (resource_name self)])
       \<and> (v = Query \<longrightarrow> calls s' = calls s1 @ Parse req #
            (case fst (parse env req (world s1)) of
               Inl e \<Rightarrow> []
             | Inr (where', select, limit, sort', skip) \<Rightarrow>
                 [SvcFilter where' select limit skip sort' (resource_name self)]))
       \<and> (\<forall>c \<in> set (drop (length (calls s1)) (calls s')). is_service_call c \<longrightarrow>
             user_arg c = (if v = Create \<or> v = Update then Some u else None))"
proof -
  from h have s': "s' = snd (handle v self env req resource_id s)" by simp
  show ?thesis
    unfolding s'
    by (cases v)
       (auto simp: query_calls [OF anon g] read_calls [OF anon g] create_calls [OF anon g]
                   update_calls [OF anon g] delete_calls [OF anon g]
             split: sum.splits)
qed

theorem user_argument_of_delegates_witness:
  "\<not> allow_to_anonymous demo_api
   \<and> gate demo_api demo_env (bearer ''Bearer abc'' ''{}'') s0 =
       (Inr (PObj 7), \<lparr>calls = [LoadUser (PStr ''abc'') (PStr ''k'') (PBool True)], world = 0\<rparr>)
   \<and> handle Create demo_api demo_env (bearer ''Bearer abc'' ''{}'') [] s0 =
       (Inr \<lparr>body = ''{}'', mimetype = Some ''application/json'', status = 201\<rparr>,
        \<lparr>calls = [LoadUser (PStr ''abc'') (PStr ''k'') (PBool True),
                  SvcPost (PObj 7) ''{}'' ''users'' PNone PNone],
         world = 1\<rparr>)
   \<and> user_arg (SvcPost (PObj 7) ''{}'' ''users'' PNone PNone) = Some (PObj 7)"
proof -
  have a: "\<not> allow_to_anonymous demo_api" by (simp add: demo_api_def)
  have g: "gate demo_api demo_env (bearer ''Bearer abc'' ''{}'') s0 =
       (Inr (PObj 7), \<lparr>calls = [LoadUser (PStr ''abc'') (PStr ''k'') (PBool True)], world = 0\<rparr>)"
    by (simp add: demo_defs run_defs)
  have h: "handle Create demo_api demo_env (bearer ''Bearer abc'' ''{}'') [] s0 =
       (Inr \<lparr>body = ''{}'', mimetype = Some ''application/json'', status = 201\<rparr>,
        \<lparr>calls = [LoadUser (PStr ''abc'') (PStr ''k'') (PBool True),
                  SvcPost (PObj 7) ''{}'' ''users'' PNone PNone],
         world = 1\<rparr>)"
    by (simp add: create_def bind_user_def demo_defs run_defs)
  from user_argument_of_delegates [OF a g h] a g h show ?thesis
    by simp
qed

text \<open>
  Claim C4 as stated has the user passed to \<^verbatim>\<open>service.delete\<close> too. A delete request whose
  token resolves to the user \<open>PObj 7\<close> calls the service with the resource id, the resource
  name and the pipeline only, and the same request resolved to another user makes the same
  calls and gets the same response.
\<close>

theorem delete_call_without_user:
  "gate demo_api demo_env (bearer ''Bearer abc'' []) s0 =
     (Inr (PObj 7), \<lparr>calls = [LoadUser (PStr ''abc'') (PStr ''k'') (PBool True)], world = 0\<rparr>)
   \<and> calls (snd (handle Delete demo_api demo_env (bearer ''Bearer abc'' []) ''42'' s0)) =
       [LoadUser (PStr ''abc'') (PStr ''k'') (PBool True), SvcDelete ''42'' ''users'' PNone]
   \<and> user_arg (SvcDelete ''42'' ''users'' PNone) \<noteq> Some (PObj 7)
   \<and> handle Delete demo_api (demo_env\<lparr>load_user := \<lambda>token secret verify w. (Inr (PObj 8), w)\<rparr>)
        (bearer ''Bearer abc'' []) ''42'' s0 =
      handle Delete demo_api demo_env (bearer ''Bearer abc'' []) ''42'' s0"
  by (simp add: delete_def demo_defs run_defs)

section \<open>The response\<close>

text \<open>
  Claim C5 says that every successful response has content type \<^verbatim>\<open>application/json\<close>. The
  delete handler builds its \<^verbatim>\<open>Response\<close> with the service's result and the status only: no
  \<^verbatim>\<open>mimetype\<close> is passed, unlike in the four other handlers.
\<close>

theorem delete_response_without_mimetype:
  "handle Delete demo_api demo_env (bearer ''Bearer abc'' []) ''7'' s0 =
     (Inr \<lparr>body = [], mimetype = None, status = 204\<rparr>,
      \<lparr>calls = [LoadUser (PStr ''abc'') (PStr ''k'') (PBool True), SvcDelete ''7'' ''users'' PNone],
       world = 1\<rparr>)"
  by (simp add: delete_def demo_defs run_defs)

text \<open>
  For every handler, a response is the result of the resource service, unchanged, as the body;
  its \<^verbatim>\<open>mimetype\<close> is \<^verbatim>\<open>application/json\<close> in query, read, create and update, and is not
  given in delete. \<open>s1\<close> is the state after the authentication step, \<open>u\<close> the user it returned.
\<close>

theorem response_shaping:
  assumes a: "(if allow_to_anonymous self then (Inr PNone, s) else gate self env req s) = (Inr u, s1)"
      and h: "handle v self env req resource_id s = (Inr resp, s')"
  shows "(v = Read \<longrightarrow>
            get_svc (resource_service self) resource_id (resource_name self) (world s1) =
              (Inr (body resp), world s'))
       \<and> (v = Delete \<longrightarrow>
            delete_svc (resource_service self) resource_id (resource_name self)
              (pipeline_functions self) (world s1) = (Inr (body resp), world s'))
       \<and> (v = Create \<longrightarrow>
            post_svc (resource_service self) u (data req) (resource_name self)
              (create_validation_schema self) (pipeline_functions self) (world s1) =
              (Inr (body resp), world s'))
       \<and> (v = Update \<longrightarrow>
            put_svc (resource_service self) u resource_id (data req) (resource_name self)
              (update_validation_schema self) (pipeline_functions self) (world s1) =
              (Inr (body resp), world s'))
       \<and> (v = Query \<longrightarrow>
            (\<exists>where' select limit sort' skip w2.
               parse env req (world s1) = (Inr (where', select, limit, sort', skip), w2)
               \<and> filter_svc (resource_service self) where' select limit skip sort'
                    (resource_name self) w2 = (Inr (body resp), world s')))
       \<and> mimetype resp = (if v = Delete then None else Some ''application/json'')"
proof (cases v)
  case Query
  with a h show ?thesis
    by (auto simp: query_def invoke_def respond_def split: prod.splits sum.splits if_splits)
next
  case Read
  with a h show ?thesis
    by (auto simp: read_def invoke_def respond_def split: prod.splits sum.splits if_splits)
next
  case Create
  with a h show ?thesis
    by (auto simp: create_def bind_user_def Let_def invoke_def respond_def
             split: prod.splits sum.splits if_splits)
next
  case Update
  with a h show ?thesis
    by (auto simp: update_def bind_user_def Let_def invoke_def respond_def
             split: prod.splits sum.splits if_splits)
next
  case Delete
  with a h show ?thesis
    by (auto simp: delete_def invoke_def respond_def split: prod.splits sum.splits if_splits)
qed

theorem response_shaping_witness:
  "(if allow_to_anonymous demo_api then (Inr PNone, s0)
    else gate demo_api demo_env (bearer ''Bearer abc'' []) s0) =
     (Inr (PObj 7), \<lparr>calls = [LoadUser (PStr ''abc'') (PStr ''k'') (PBool True)], world = 0\<rparr>)
   \<and> handle Query demo_api demo_env (bearer ''Bearer abc'' []) [] s0 =
       (Inr \<lparr>body = ''[]'', mimetype = Some ''application/json'', status = 200\<rparr>,
        \<lparr>calls = [LoadUser (PStr ''abc'') (PStr ''k'') (PBool True),
                  Parse (bearer ''Bearer abc'' []),
                  SvcFilter (PDict []) PNone (PInt 10) (PInt 0) PNone ''users''],
         world = 0\<rparr>)
   \<and> mimetype \<lparr>body = ''[]'', mimetype = Some ''application/json'', status = 200\<rparr> =
       Some ''application/json''"
proof -
  have a: "(if allow_to_anonymous demo_api then (Inr PNone, s0)
    else gate demo_api demo_env (bearer ''Bearer abc'' []) s0) =
     (Inr (PObj 7), \<lparr>calls = [LoadUser (PStr ''abc'') (PStr ''k'') (PBool True)], world = 0\<rparr>)"
    by (simp add: demo_defs run_defs)
  have h: "handle Query demo_api demo_env (bearer ''Bearer abc'' []) [] s0 =
       (Inr \<lparr>body = ''[]'', mimetype = Some ''application/json'', status = 200\<rparr>,
        \<lparr>calls = [LoadUser (PStr ''abc'') (PStr ''k'') (PBool True),
                  Parse (bearer ''Bearer abc'' []),
                  SvcFilter (PDict []) PNone (PInt 10) (PInt 0) PNone ''users''],
         world = 0\<rparr>)"
    by (simp add: query_def demo_defs run_defs)
  from response_shaping [OF a h] a h show ?thesis by simp
qed

text \<open>
  Claim C6. After the authentication step (the gate's user \<open>u\<close> in state \<open>s1\<close>, or no gate
  on an anonymous descriptor), every handler whose service call returns answers with the status
  of its method: query, once the request parses, and read with 200, create with 201, update with
  200, delete with 204. No handler ever answers with another status.
\<close>

theorem status_code_fixed:
  assumes a: "(if allow_to_anonymous self then (Inr PNone, s) else gate self env req s) = (Inr u, s1)"
  shows "(\<forall>where' select limit sort' skip w2 result w3.
            parse env req (world s1) = (Inr (where', select, limit, sort', skip), w2)
            \<and> filter_svc (resource_service self) where' select limit skip sort'
                 (resource_name self) w2 = (Inr result, w3) \<longrightarrow>
            handle Query self env req resource_id s =
              (Inr \<lparr>body = result, mimetype = Some ''application/json'', status = 200\<rparr>,
               \<lparr>calls = calls s1 @
                  [Parse req, SvcFilter where' select limit skip sort' (resource_name self)],
                world = w3\<rparr>))
       \<and> (\<forall>result w2.
            get_svc (resource_service self) resource_id (resource_name self) (world s1) =
              (Inr result, w2) \<longrightarrow>
            handle Read self env req resource_id s =
              (Inr \<lparr>body = result, mimetype = Some ''application/json'', status = 200\<rparr>,
               \<lparr>calls = calls s1 @ [SvcGet resource_id (resource_name self)], world = w2\<rparr>))
       \<and> (\<forall>result w2.
            \<not> allow_to_anonymous self
            \<and> post_svc (resource_service self) u (data req) (resource_name self)
                 (create_validation_schema self) (pipeline_functions self) (world s1) =
                 (Inr result, w2) \<longrightarrow>
            handle Create self env req resource_id s =
              (Inr \<lparr>body = result, mimetype = Some ''application/json'', status = 201\<rparr>,
               \<lparr>calls = calls s1 @
                  [SvcPost u (data req) (resource_name self) (create_validation_schema self)
                     (pipeline_functions self)],
                world = w2\<rparr>))
       \<and> (\<forall>result w2.
            \<not> allow_to_anonymous self
            \<and> put_svc (resource_service self) u resource_id (data req) (resource_name self)
                 (update_validation_schema self) (pipeline_functions self) (world s1) =
                 (Inr result, w2) \<longrightarrow>
            handle Update self env req resource_id s =
              (Inr \<lparr>body = result, mimetype = Some ''application/json'', status = 200\<rparr>,
               \<lparr>calls = calls s1 @
                  [SvcPut u resource_id (data req) (resource_name self)
                     (update_validation_schema self) (pipeline_functions self)],
                world = w2\<rparr>))
       \<and> (\<forall>result w2.
            delete_svc (resource_service self) resource_id (resource_name self)
              (pipeline_functions self) (world s1) = (Inr result, w2) \<longrightarrow>
            handle Delete self env req resource_id s =
              (Inr \<lparr>body = result, mimetype = None, status = 204\<rparr>,
               \<lparr>calls = calls s1 @
                  [SvcDelete resource_id (resource_name self) (pipeline_functions self)],
                world = w2\<rparr>))
       \<and> (\<forall>v resp s'.
            handle v self env req resource_id s = (Inr resp, s') \<longrightarrow>
            status resp = (case v of Query \<Rightarrow> 200 | Read \<Rightarrow> 200 | Create \<Rightarrow> 201
                             | Update \<Rightarrow> 200 | Delete \<Rightarrow> 204))"
proof (intro conjI allI impI)
  fix where' select limit sort' skip w2 result w3
  assume "parse env req (world s1) = (Inr (where', select, limit, sort', skip), w2)
            \<and> filter_svc (resource_service self) where' select limit skip sort'
                 (resource_name self) w2 = (Inr result, w3)"
  with a show "handle Query self env req resource_id s =
              (Inr \<lparr>body = result, mimetype = Some ''application/json'', status = 200\<rparr>,
               \<lparr>calls = calls s1 @
                  [Parse req, SvcFilter where' select limit skip sort' (resource_name self)],
                world = w3\<rparr>)"
    by (simp add: query_def invoke_def respond_def getitem_def STATUS_CODE_MAPPING_def
             split: if_splits)
next
  fix result w2
  assume "get_svc (resource_service self) resource_id (resource_name self) (world s1) =
              (Inr result, w2)"
  with a show "handle Read self env req resource_id s =
              (Inr \<lparr>body = result, mimetype = Some ''application/json'', status = 200\<rparr>,
               \<lparr>calls = calls s1 @ [SvcGet resource_id (resource_name self)], world = w2\<rparr>)"
    by (simp add: read_def invoke_def respond_def getitem_def STATUS_CODE_MAPPING_def
             split: if_splits)
next
  fix result w2
  assume "\<not> allow_to_anonymous self
            \<and> post_svc (resource_service self) u (data req) (resource_name self)
                 (create_validation_schema self) (pipeline_functions self) (world s1) =
                 (Inr result, w2)"
  with a show "handle Create self env req resource_id s =
              (Inr \<lparr>body = result, mimetype = Some ''application/json'', status = 201\<rparr>,
               \<lparr>calls = calls s1 @
                  [SvcPost u (data req) (resource_name self) (create_validation_schema self)
                     (pipeline_functions self)],
                world = w2\<rparr>)"
    by (simp add: create_def bind_user_def Let_def invoke_def respond_def getitem_def
                  STATUS_CODE_MAPPING_def)
next
  fix result w2
  assume "\<not> allow_to_anonymous self
            \<and> put_svc (resource_service self) u resource_id (data req) (resource_name self)
                 (update_validation_schema self) (pipeline_functions self) (world s1) =
                 (Inr result, w2)"
  with a show "handle Update self env req resource_id s =
              (Inr \<lparr>body = result, mimetype = Some ''application/json'', status = 200\<rparr>,
               \<lparr>calls = calls s1 @
                  [SvcPut u resource_id (data req) (resource_name self)
                     (update_validation_schema self) (pipeline_functions self)],
                world = w2\<rparr>)"
    by (simp add: update_def bind_user_def Let_def invoke_def respond_def getitem_def
                  STATUS_CODE_MAPPING_def)
next
  fix result w2
  assume "delete_svc (resource_service self) resource_id (resource_name self)
              (pipeline_functions self) (world s1) = (Inr result, w2)"
  with a show "handle Delete self env req resource_id s =
              (Inr \<lparr>body = result, mimetype = None, status = 204\<rparr>,
               \<lparr>calls = calls s1 @
                  [SvcDelete resource_id (resource_name self) (pipeline_functions self)],
                world = w2\<rparr>)"
    by (simp add: delete_def invoke_def respond_def getitem_def STATUS_CODE_MAPPING_def
             split: if_splits)
next
  fix v resp s'
  assume "handle v self env req resource_id s = (Inr resp, s')"
  then show "status resp = (case v of Query \<Rightarrow> 200 | Read \<Rightarrow> 200 | Create \<Rightarrow> 201
                             | Update \<Rightarrow> 200 | Delete \<Rightarrow> 204)"
    by (cases v)
       (auto simp: query_def read_def create_def update_def delete_def Let_def
                   getitem_def STATUS_CODE_MAPPING_def
             dest!: respond_Inr split: prod.splits sum.splits option.splits if_splits)
qed

theorem status_code_fixed_witness:
  "handle Query demo_api demo_env (bearer ''Bearer abc'' ''{}'') ''42'' s0 =
     (Inr \<lparr>body = ''[]'', mimetype = Some ''application/json'', status = 200\<rparr>,
      \<lparr>calls = [LoadUser (PStr ''abc'') (PStr ''k'') (PBool True),
                Parse (bearer ''Bearer abc'' ''{}''),
                SvcFilter (PDict []) PNone (PInt 10) (PInt 0) PNone ''users''],
       world = 0\<rparr>)
   \<and> handle Read demo_api demo_env (bearer ''Bearer abc'' ''{}'') ''42'' s0 =
     (Inr \<lparr>body = ''item 42'', mimetype = Some ''application/json'', status = 200\<rparr>,
      \<lparr>calls = [LoadUser (PStr ''abc'') (PStr ''k'') (PBool True), SvcGet ''42'' ''users''],
       world = 0\<rparr>)
   \<and> handle Create demo_api demo_env (bearer ''Bearer abc'' ''{}'') ''42'' s0 =
     (Inr \<lparr>body = ''{}'', mimetype = Some ''application/json'', status = 201\<rparr>,
      \<lparr>calls = [LoadUser (PStr ''abc'') (PStr ''k'') (PBool True),
                SvcPost (PObj 7) ''{}'' ''users'' PNone PNone],
       world = 1\<rparr>)
   \<and> handle Update demo_api demo_env (bearer ''Bearer abc'' ''{}'') ''42'' s0 =
     (Inr \<lparr>body = ''{}'', mimetype = Some ''application/json'', status = 200\<rparr>,
      \<lparr>calls = [LoadUser (PStr ''abc'') (PStr ''k'') (PBool True),
                SvcPut (PObj 7) ''42'' ''{}'' ''users'' PNone PNone],
       world = 1\<rparr>)
   \<and> handle Delete demo_api demo_env (bearer ''Bearer abc'' ''{}'') ''42'' s0 =
     (Inr \<lparr>body = [], mimetype = None, status = 204\<rparr>,
      \<lparr>calls = [LoadUser (PStr ''abc'') (PStr ''k'') (PBool True),
                SvcDelete ''42'' ''users'' PNone],
       world = 1\<rparr>)"
proof -
  let ?s1 = "\<lparr>calls = [LoadUser (PStr ''abc'') (PStr ''k'') (PBool True)], world = 0::nat\<rparr>"
  have a: "(if allow_to_anonymous demo_api then (Inr PNone, s0)
            else gate demo_api demo_env (bearer ''Bearer abc'' ''{}'') s0) = (Inr (PObj 7), ?s1)"
    by (simp add: demo_defs run_defs)
  have n: "\<not> allow_to_anonymous demo_api" by (simp add: demo_api_def)
  have p: "parse demo_env (bearer ''Bearer abc'' ''{}'') (world ?s1) =
             (Inr (PDict [], PNone, PInt 10, PNone, PInt 0), 0)"
    by (simp add: demo_env_def)
  have f: "filter_svc (resource_service demo_api) (PDict []) PNone (PInt 10) (PInt 0) PNone
             (resource_name demo_api) 0 = (Inr ''[]'', 0)"
    by (simp add: demo_api_def demo_service_def)
  have g: "get_svc (resource_service demo_api) ''42'' (resource_name demo_api) (world ?s1) =
             (Inr ''item 42'', 0)"
    by (simp add: demo_api_def demo_service_def)
  have c: "post_svc (resource_service demo_api) (PObj 7) (data (bearer ''Bearer abc'' ''{}''))
             (resource_name demo_api) (create_validation_schema demo_api)
             (pipeline_functions demo_api) (world ?s1) = (Inr ''{}'', 1)"
    by (simp add: demo_api_def demo_service_def bearer_def)
  have u: "put_svc (resource_service demo_api) (PObj 7) ''42'' (data (bearer ''Bearer abc'' ''{}''))
             (resource_name demo_api) (update_validation_schema demo_api)
             (pipeline_functions demo_api) (world ?s1) = (Inr ''{}'', 1)"
    by (simp add: demo_api_def demo_service_def bearer_def)
  have d: "delete_svc (resource_service demo_api) ''42'' (resource_name demo_api)
             (pipeline_functions demo_api) (world ?s1) = (Inr [], 1)"
    by (simp add: demo_api_def demo_service_def)
  note t = status_code_fixed [OF a, of "''42''"]
  have q': "handle Query demo_api demo_env (bearer ''Bearer abc'' ''{}'') ''42'' s0 =
     (Inr \<lparr>body = ''[]'', mimetype = Some ''application/json'', status = 200\<rparr>,
      \<lparr>calls = calls ?s1 @ [Parse (bearer ''Bearer abc'' ''{}''),
                SvcFilter (PDict []) PNone (PInt 10) (PInt 0) PNone (resource_name demo_api)],
       world = 0\<rparr>)"
    using t p f by blast
  have g': "handle Read demo_api demo_env (bearer ''Bearer abc'' ''{}'') ''42'' s0 =
     (Inr \<lparr>body = ''item 42'', mimetype = Some ''application/json'', status = 200\<rparr>,
      \<lparr>calls = calls ?s1 @ [SvcGet ''42'' (resource_name demo_api)], world = 0\<rparr>)"
    using t g by blast
  have c': "handle Create demo_api demo_env (bearer ''Bearer abc'' ''{}'') ''42'' s0 =
     (Inr \<lparr>body = ''{}'', mimetype = Some ''application/json'', status = 201\<rparr>,
      \<lparr>calls = calls ?s1 @ [SvcPost (PObj 7) (data (bearer ''Bearer abc'' ''{}''))
                 (resource_name demo_api) (create_validation_schema demo_api)
                 (pipeline_functions demo_api)], world = 1\<rparr>)"
    using t n c by blast
  have u': "handle Update demo_api demo_env (bearer ''Bearer abc'' ''{}'') ''42'' s0 =
     (Inr \<lparr>body = ''{}'', mimetype = Some ''application/json'', status = 200\<rparr>,
      \<lparr>calls = calls ?s1 @ [SvcPut (PObj 7) ''42'' (data (bearer ''Bearer abc'' ''{}''))
                 (resource_name demo_api) (update_validation_schema demo_api)
                 (pipeline_functions demo_api)], world = 1\<rparr>)"
    using t n u by blast
  have d': "handle Delete demo_api demo_env (bearer ''Bearer abc'' ''{}'') ''42'' s0 =
     (Inr \<lparr>body = [], mimetype = None, status = 204\<rparr>,
      \<lparr>calls = calls ?s1 @ [SvcDelete ''42'' (resource_name demo_api)
                 (pipeline_functions demo_api)], world = 1\<rparr>)"
    using t d by blast
  show ?thesis
    unfolding q' g' c' u' d'
    by (simp add: demo_api_def bearer_def)
qed

section \<open>Anonymous create and update\<close>

text \<open>
  Claim C9. On a descriptor with \<^verbatim>\<open>allow_to_anonymous\<close> true, every request to the create or
  the update handler raises \<^verbatim>\<open>UnboundLocalError\<close> for the variable \<^verbatim>\<open>user\<close>; the state is
  unchanged, so the resource service is not called.
\<close>

theorem anonymous_create_update_unbound:
  assumes "allow_to_anonymous self" and "v = Create \<or> v = Update"
  shows "handle v self env req resource_id s = (Inl (UnboundLocalError ''user''), s)"
  using assms by (auto simp: create_def update_def bind_user_def)

theorem anonymous_create_update_unbound_witness:
  "allow_to_anonymous (demo_api\<lparr>allow_to_anonymous := True\<rparr>)
   \<and> handle Create (demo_api\<lparr>allow_to_anonymous := True\<rparr>) demo_env (bearer ''Bearer abc'' ''{}'') [] s0
       = (Inl (UnboundLocalError ''user''), s0)
   \<and> handle Update (demo_api\<lparr>allow_to_anonymous := True\<rparr>) demo_env (bearer ''Bearer abc'' ''{}'') ''42'' s0
       = (Inl (UnboundLocalError ''user''), s0)"
  using anonymous_create_update_unbound [of "demo_api\<lparr>allow_to_anonymous := True\<rparr>" Create]
        anonymous_create_update_unbound [of "demo_api\<lparr>allow_to_anonymous := True\<rparr>" Update]
  by simp

section \<open>The token endpoints on bad input\<close>

text \<open>
  Claim C7 says that a body without a token field gets 400 \<^verbatim>\<open>errors.tokenRequired\<close>. The body
  \<^verbatim>\<open>[]\<close> is valid JSON without a token field; \<^verbatim>\<open>body.get\<close> raises \<^verbatim>\<open>AttributeError\<close> on
  the list, which is no structured error.
\<close>

theorem refresh_token_list_body:
  "json_loads demo_env (data (bearer [] ''[]'')) = Inr (PList [])
   \<and> refresh_token demo_env demo_settings (bearer [] ''[]'') s0 = (Inl (AttributeError ''get''), s0)"
  by (simp add: refresh_token_def demo_env_def demo_loads_def bearer_def)

text \<open>
  On a body that is a JSON object, \<^verbatim>\<open>refresh_token\<close> does what claim C7 says: a missing or
  false token gets 400 \<^verbatim>\<open>errors.tokenRequired\<close>; an error of \<^verbatim>\<open>load_user\<close> is raised
  unchanged; otherwise the response is the new token of the token service, with status 201.
\<close>

theorem refresh_token_object_body:
  assumes "json_loads env (data req) = Inr (PDict kvs)"
  shows "((map_of kvs ''token'' = None \<or> (\<exists>token. map_of kvs ''token'' = Some token \<and> \<not> truthy token)) \<longrightarrow>
            refresh_token env settings' req s =
              (Inl (ErtisError ''errors.tokenRequired'' ''Token is required'' 400 None), s))
       \<and> (\<forall>token secret verify.
            map_of kvs ''token'' = Some token \<and> truthy token
            \<and> map_of settings' ''application_secret'' = Some secret
            \<and> map_of settings' ''verify_token'' = Some verify \<longrightarrow>
            (\<forall>e w1. load_user env token secret verify (world s) = (Inl e, w1) \<longrightarrow>
               refresh_token env settings' req s =
                 (Inl e, \<lparr>calls = calls s @ [LoadUser token secret verify], world = w1\<rparr>))
            \<and> (\<forall>user w1 ttl new_token w2.
                 load_user env token secret verify (world s) = (Inr user, w1)
                 \<and> map_of settings' ''token_ttl'' = Some ttl
                 \<and> refresh_token_svc env user secret ttl w1 = (Inr new_token, w2) \<longrightarrow>
                 refresh_token env settings' req s =
                   (Inr \<lparr>body = json_dumps env (PDict [(''token'', PStr new_token)]),
                         mimetype = Some ''application/json'', status = 201\<rparr>,
                    \<lparr>calls = calls s @ [LoadUser token secret verify,
                                        RefreshToken user secret ttl],
                     world = w2\<rparr>)))"
  using assms
  by (auto simp: refresh_token_def getitem_def invoke_def)

theorem refresh_token_object_body_witness:
  \<open>refresh_token demo_env demo_settings (bearer [] ''{}'') s0 =
     (Inl (ErtisError ''errors.tokenRequired'' ''Token is required'' 400 None), s0)
   \<and> refresh_token demo_env demo_settings (bearer [] ''{"token": "abc"}'') s0 =
       (Inr \<lparr>body = ''{"token": "tok2"}'', mimetype = Some ''application/json'', status = 201\<rparr>,
        \<lparr>calls = [LoadUser (PStr ''abc'') (PStr ''k'') (PBool True),
                  RefreshToken (PObj 7) (PStr ''k'') (PInt 60)],
         world = 0\<rparr>)\<close>
proof -
  have j1: "json_loads demo_env (data (bearer [] ''{}'')) = Inr (PDict [])"
    by (simp add: demo_env_def bearer_def demo_loads_empty)
  have j2: \<open>json_loads demo_env (data (bearer [] ''{"token": "abc"}'')) =
              Inr (PDict [(''token'', PStr ''abc'')])\<close>
    by (simp add: demo_env_def bearer_def demo_loads_token)
  have d: \<open>json_dumps demo_env (PDict [(''token'', PStr ''tok2'')]) = ''{"token": "tok2"}''\<close>
    by (simp add: demo_env_def demo_dumps_def)
  have l: "load_user demo_env (PStr ''abc'') (PStr ''k'') (PBool True) (world s0) = (Inr (PObj 7), 0)"
    by (simp add: demo_env_def s0_def)
  have r: "refresh_token_svc demo_env (PObj 7) (PStr ''k'') (PInt 60) 0 = (Inr ''tok2'', 0)"
    by (simp add: demo_env_def)
  from refresh_token_object_body [OF j1, of demo_settings s0, THEN conjunct1]
       refresh_token_object_body [OF j2, of demo_settings s0, THEN conjunct2, THEN spec, THEN spec,
         THEN spec, of "PStr ''abc''" "PStr ''k''" "PBool True"]
       d l r
  show ?thesis
    by (simp add: demo_settings_def s0_def)
qed

text \<open>
  Claim C8, as amended. When the body parses: if \<^verbatim>\<open>validate\<close> raises a \<^verbatim>\<open>ValidationError\<close>,
  the handler raises 400 \<^verbatim>\<open>errors.validationError\<close> with the error's message and, as context,
  the \<^verbatim>\<open>required\<close> and \<^verbatim>\<open>properties\<close> entries of the schema the error carries (\<^verbatim>\<open>[]\<close> and
  \<^verbatim>\<open>{}\<close> when it has none). These are the create-token schema's own entries when the error
  carries that schema, as for a missing required field. If the body is valid, with its email and
  password, the handler crafts a token from them and responds with \<^verbatim>\<open>{"token": token}\<close> and
  status 200.
\<close>

theorem create_token_outcomes:
  assumes "json_loads env (data req) = Inr b"
  shows "(\<forall>e. validate env b (CREATE_TOKEN_SCHEMA env) = Some e \<longrightarrow>
            create_token env settings' req s =
              (Inl (ErtisError ''errors.validationError'' (message e) 400
                     (Some (PDict
                        [(''required'',
                            case map_of (schema e) ''required'' of
                              None \<Rightarrow> PList [] | Some v \<Rightarrow> v),
                         (''properties'',
                            case map_of (schema e) ''properties'' of
                              None \<Rightarrow> PDict [] | Some v \<Rightarrow> v)]))), s))
       \<and> (\<forall>e sk required properties.
            validate env b (CREATE_TOKEN_SCHEMA env) = Some e
            \<and> CREATE_TOKEN_SCHEMA env = PDict sk \<and> schema e = sk
            \<and> map_of sk ''required'' = Some required
            \<and> map_of sk ''properties'' = Some properties \<longrightarrow>
            create_token env settings' req s =
              (Inl (ErtisError ''errors.validationError'' (message e) 400
                     (Some (PDict [(''required'', required), (''properties'', properties)]))),
               s))
       \<and> (\<forall>kvs email password secret ttl token w'.
            validate env b (CREATE_TOKEN_SCHEMA env) = None
            \<and> b = PDict kvs
            \<and> map_of kvs ''email'' = Some email \<and> map_of kvs ''password'' = Some password
            \<and> map_of settings' ''application_secret'' = Some secret
            \<and> map_of settings' ''token_ttl'' = Some ttl
            \<and> craft_token env (PDict [(''email'', email), (''password'', password)]) secret ttl
                 (world s) = (Inr token, w') \<longrightarrow>
            create_token env settings' req s =
              (Inr \<lparr>body = json_dumps env (PDict [(''token'', PStr token)]),
                    mimetype = Some ''application/json'', status = 200\<rparr>,
               \<lparr>calls = calls s @
                   [CraftToken (PDict [(''email'', email), (''password'', password)]) secret ttl],
                world = w'\<rparr>))"
  using assms
  by (auto simp: create_token_def dict_get_def getitem_def invoke_def Let_def)

theorem create_token_outcomes_witness:
  \<open>create_token demo_env demo_settings (bearer [] ''{}'') s0 =
     (Inl (ErtisError ''errors.validationError'' ''email is a required property'' 400
            (Some (PDict
               [(''required'', PList [PStr ''email'', PStr ''password'']),
                (''properties'', PDict [(''email'', PDict [(''type'', PStr ''string'')]),
                                        (''password'', PDict [(''type'', PStr ''string'')])])]))),
      s0)
   \<and> create_token demo_env demo_settings
        (bearer [] ''{"email": "a@b.c", "password": "pw"}'') s0 =
       (Inr \<lparr>body = ''{"token": "tok1"}'', mimetype = Some ''application/json'', status = 200\<rparr>,
        \<lparr>calls = [CraftToken (PDict [(''email'', PStr ''a@b.c''), (''password'', PStr ''pw'')])
                    (PStr ''k'') (PInt 60)],
         world = 0\<rparr>)\<close>
proof -
  let ?sk = "[(''type'', PStr ''object''),
            (''properties'', PDict [(''email'', PDict [(''type'', PStr ''string'')]),
                                    (''password'', PDict [(''type'', PStr ''string'')])]),
            (''required'', PList [PStr ''email'', PStr ''password''])]"
  have j1: "json_loads demo_env (data (bearer [] ''{}'')) = Inr (PDict [])"
    by (simp add: demo_env_def bearer_def demo_loads_empty)
  have j2: \<open>json_loads demo_env (data (bearer [] ''{"email": "a@b.c", "password": "pw"}'')) =
              Inr (PDict [(''email'', PStr ''a@b.c''), (''password'', PStr ''pw'')])\<close>
    by (simp add: demo_env_def bearer_def demo_loads_credentials)
  have sch: "CREATE_TOKEN_SCHEMA demo_env = PDict ?sk"
    by (simp add: demo_env_def demo_schema_def)
  have v1: "validate demo_env (PDict []) (CREATE_TOKEN_SCHEMA demo_env) =
              Some \<lparr>message = ''email is a required property'', schema = ?sk\<rparr>"
    by (simp add: demo_env_def demo_validate_def demo_schema_def)
  have v2: "validate demo_env (PDict [(''email'', PStr ''a@b.c''), (''password'', PStr ''pw'')])
              (CREATE_TOKEN_SCHEMA demo_env) = None"
    by (simp add: demo_env_def demo_validate_def demo_schema_def)
  have c: "craft_token demo_env (PDict [(''email'', PStr ''a@b.c''), (''password'', PStr ''pw'')])
             (PStr ''k'') (PInt 60) (world s0) = (Inr ''tok1'', 0)"
    by (simp add: demo_env_def s0_def)
  have d: \<open>json_dumps demo_env (PDict [(''token'', PStr ''tok1'')]) = ''{"token": "tok1"}''\<close>
    by (simp add: demo_env_def demo_dumps_def)
  have r: "map_of ?sk ''required'' = Some (PList [PStr ''email'', PStr ''password''])"
    by simp
  have p: "map_of ?sk ''properties'' =
             Some (PDict [(''email'', PDict [(''type'', PStr ''string'')]),
                          (''password'', PDict [(''type'', PStr ''string'')])])"
    by simp
  have k: "map_of demo_settings ''application_secret'' = Some (PStr ''k'')"
          "map_of demo_settings ''token_ttl'' = Some (PInt 60)"
    by (simp_all add: demo_settings_def)
  have m: "map_of [(''email'', PStr ''a@b.c''), (''password'', PStr ''pw'')] ''email'' =
             Some (PStr ''a@b.c'')"
          "map_of [(''email'', PStr ''a@b.c''), (''password'', PStr ''pw'')] ''password'' =
             Some (PStr ''pw'')"
    by simp_all
  have e1: "create_token demo_env demo_settings (bearer [] ''{}'') s0 =
     (Inl (ErtisError ''errors.validationError''
            (message \<lparr>message = ''email is a required property'', schema = ?sk\<rparr>) 400
            (Some (PDict
               [(''required'', PList [PStr ''email'', PStr ''password'']),
                (''properties'', PDict [(''email'', PDict [(''type'', PStr ''string'')]),
                                        (''password'', PDict [(''type'', PStr ''string'')])])]))),
      s0)"
    using create_token_outcomes [OF j1, of demo_settings s0, THEN conjunct2, THEN conjunct1,
            THEN spec, THEN spec, THEN spec, THEN spec, THEN mp,
            of "\<lparr>message = ''email is a required property'', schema = ?sk\<rparr>" ?sk] v1 sch r p
    by simp
  have e2: \<open>create_token demo_env demo_settings
        (bearer [] ''{"email": "a@b.c", "password": "pw"}'') s0 =
       (Inr \<lparr>body = json_dumps demo_env (PDict [(''token'', PStr ''tok1'')]),
              mimetype = Some ''application/json'', status = 200\<rparr>,
        \<lparr>calls = calls s0 @
            [CraftToken (PDict [(''email'', PStr ''a@b.c''), (''password'', PStr ''pw'')])
                    (PStr ''k'') (PInt 60)],
         world = 0\<rparr>)\<close>
    using create_token_outcomes [OF j2, of demo_settings s0, THEN conjunct2, THEN conjunct2,
            THEN spec, THEN spec, THEN spec, THEN spec, THEN spec, THEN spec, THEN spec, THEN mp,
            of "[(''email'', PStr ''a@b.c''), (''password'', PStr ''pw'')]" "PStr ''a@b.c''"
               "PStr ''pw''" "PStr ''k''" "PInt 60" "''tok1''" 0] v2 c k m
    by simp
  show ?thesis
    unfolding e1 e2 d by (simp add: s0_def)
qed

text \<open>
  Claim C8 as stated has the context hold the create-token schema's required fields and
  properties. A body whose email is a number fails in the schema of that property, which the
  error carries; it has neither entry, so the context holds \<^verbatim>\<open>[]\<close> and \<^verbatim>\<open>{}\<close>, not the two
  required fields.
\<close>

theorem validation_context_of_subschema:
  \<open>CREATE_TOKEN_SCHEMA demo_env =
     PDict [(''type'', PStr ''object''),
            (''properties'', PDict [(''email'', PDict [(''type'', PStr ''string'')]),
                                    (''password'', PDict [(''type'', PStr ''string'')])]),
            (''required'', PList [PStr ''email'', PStr ''password''])]
   \<and> create_token demo_env demo_settings (bearer [] ''{"email": 5, "password": "pw"}'') s0 =
       (Inl (ErtisError ''errors.validationError'' ''email is not of type string'' 400
              (Some (PDict [(''required'', PList []), (''properties'', PDict [])]))), s0)\<close>
  by (simp add: create_token_def demo_env_def demo_loads_def demo_validate_def demo_schema_def
                property_schema_def dict_get_def bearer_def)

text \<open>
  Claim C10. When the body of \<^verbatim>\<open>POST /api/{version}/tokens\<close> is not JSON, \<^verbatim>\<open>create_token\<close>
  raises the \<^verbatim>\<open>ValueError\<close> of \<^verbatim>\<open>json.loads\<close>, which is not an \<^verbatim>\<open>ErtisError\<close>, while
  \<^verbatim>\<open>refresh_token\<close> turns the same failure into 400 \<^verbatim>\<open>errors.badRequest\<close>.
\<close>

theorem create_token_invalid_json:
  assumes "json_loads env (data req) = Inl msg"
  shows "create_token env settings' req s = (Inl (ValueError msg), s)
       \<and> (\<forall>code m st ctx. ValueError msg \<noteq> ErtisError code m st ctx)
       \<and> refresh_token env settings' req s =
           (Inl (ErtisError ''errors.badRequest'' ''Invalid json provided'' 400
                  (Some (PDict [(''message'', PStr msg)]))), s)"
  using assms by (simp add: create_token_def refresh_token_def)

theorem create_token_invalid_json_witness:
  "json_loads demo_env (data (bearer [] ''{oops'')) = Inl ''Expecting value''
   \<and> create_token demo_env demo_settings (bearer [] ''{oops'') s0 =
       (Inl (ValueError ''Expecting value''), s0)
   \<and> refresh_token demo_env demo_settings (bearer [] ''{oops'') s0 =
       (Inl (ErtisError ''errors.badRequest'' ''Invalid json provided'' 400
              (Some (PDict [(''message'', PStr ''Expecting value'')]))), s0)"
proof -
  have j: "json_loads demo_env (data (bearer [] ''{oops'')) = Inl ''Expecting value''"
    by (simp add: demo_env_def demo_loads_def bearer_def)
  from create_token_invalid_json [OF j] j show ?thesis by simp
qed

end
